theory Spec2Isabelle
  imports Complex_Main "HOL-Library.Sublist" "HOL-Library.Char_ord" "HOL-Library.List_Lexorder"
begin

section \<open>Python text: characters, substring test, splitting\<close>

text \<open>
  The backend is a single Python module, \<^verbatim>\<open>swaglyrics_backend/issue_maker.py\<close>.
  A Python \<^verbatim>\<open>str\<close> is modelled as a HOL \<open>string\<close>, one \<open>char\<close> per code point; the
  model therefore covers text whose code points are below 256.
\<close>

definition LF :: char where
  "LF = CHR 0x0A"

definition CR :: char where
  "CR = CHR 0x0D"

definition isspace :: "char \<Rightarrow> bool" where
  \<comment> \<open>\<^verbatim>\<open>\s\<close> of \<^verbatim>\<open>re\<close> on \<^verbatim>\<open>str\<close> patterns, and the separators of \<^verbatim>\<open>str.split()\<close>:
      tab, LF, VT, FF, CR, the separators 0x1C to 0x1F, space, NEL and no-break space.\<close>
  "isspace c \<longleftrightarrow>
     (let n = (of_char c :: nat)
      in (9 \<le> n \<and> n \<le> 13) \<or> (28 \<le> n \<and> n \<le> 32) \<or> n = 133 \<or> n = 160)"

definition isalpha_ascii :: "char \<Rightarrow> bool" where
  \<comment> \<open>the class \<^verbatim>\<open>[A-Za-z]\<close>\<close>
  "isalpha_ascii c \<longleftrightarrow>
     (let n = (of_char c :: nat) in (65 \<le> n \<and> n \<le> 90) \<or> (97 \<le> n \<and> n \<le> 122))"

definition isdigit_ascii :: "char \<Rightarrow> bool" where
  \<comment> \<open>the class \<^verbatim>\<open>[0-9]\<close>\<close>
  "isdigit_ascii c \<longleftrightarrow> (let n = (of_char c :: nat) in 48 \<le> n \<and> n \<le> 57)"

definition lower_char :: "char \<Rightarrow> char" where
  \<comment> \<open>\<^verbatim>\<open>str.lower()\<close> on one code point below 256: A to Z, and the Latin-1 capitals
      0xC0 to 0xDE without the multiplication sign 0xD7, move up by 32.\<close>
  "lower_char c =
     (let n = (of_char c :: nat)
      in if (65 \<le> n \<and> n \<le> 90) \<or> (192 \<le> n \<and> n \<le> 222 \<and> n \<noteq> 215)
         then char_of (n + 32) else c)"

definition lower :: "string \<Rightarrow> string" where
  "lower s = map lower_char s"

fun py_in :: "string \<Rightarrow> string \<Rightarrow> bool" where
  \<comment> \<open>\<^verbatim>\<open>x in s\<close> on strings: \<open>x\<close> occurs in \<open>s\<close> as a contiguous run\<close>
  "py_in x [] = (x = [])"
| "py_in x (c # cs) = (prefix x (c # cs) \<or> py_in x cs)"

fun py_split :: "string \<Rightarrow> string list" where
  \<comment> \<open>\<^verbatim>\<open>str.split()\<close> without arguments: the maximal runs of non-whitespace\<close>
  "py_split [] = []"
| "py_split (c # cs) =
     (if isspace c then py_split cs
      else (case cs of
              [] \<Rightarrow> [[c]]
            | d # ds \<Rightarrow> if isspace d then [c] # py_split cs
                       else (case py_split cs of [] \<Rightarrow> [[c]] | w # ws \<Rightarrow> (c # w) # ws)))"

section \<open>The ledger file \<^verbatim>\<open>unsupported.txt\<close>\<close>

text \<open>
  The file is opened in text mode with the default \<^verbatim>\<open>newline=None\<close>: on reading,
  \<^verbatim>\<open>\r\n\<close> and a lone \<^verbatim>\<open>\r\<close> arrive as \<^verbatim>\<open>\n\<close>; on writing (on the POSIX host
  the service runs on) characters are stored as written.
\<close>

fun read_text :: "string \<Rightarrow> string" where
  \<comment> \<open>\<^verbatim>\<open>f.read()\<close> of a file with the given stored content\<close>
  "read_text [] = []"
| "read_text [c] = (if c = CR then [LF] else [c])"
| "read_text (c # d # cs) =
     (if c = CR then (if d = LF then LF # read_text cs else LF # read_text (d # cs))
      else c # read_text (d # cs))"

fun lines_of :: "string \<Rightarrow> string list" where
  \<comment> \<open>the lines of a text, each with its terminating \<^verbatim>\<open>\n\<close>; the last may lack it\<close>
  "lines_of [] = []"
| "lines_of (c # cs) =
     (if c = LF then [c] # lines_of cs
      else (case lines_of cs of [] \<Rightarrow> [[c]] | l # ls \<Rightarrow> (c # l) # ls))"

definition readlines :: "string \<Rightarrow> string list" where
  \<comment> \<open>\<^verbatim>\<open>f.readlines()\<close> of a file with the given stored content\<close>
  "readlines stored = lines_of (read_text stored)"

definition pair_text :: "string \<Rightarrow> string \<Rightarrow> string" where
  \<comment> \<open>\<^verbatim>\<open>f'{song} by {artist}'\<close>\<close>
  "pair_text song artist = song @ '' by '' @ artist"

definition pair_line :: "string \<Rightarrow> string \<Rightarrow> string" where
  \<comment> \<open>\<^verbatim>\<open>f'{song} by {artist}\n'\<close>\<close>
  "pair_line song artist = pair_text song artist @ [LF]"

fun del_loop :: "string \<Rightarrow> string list \<Rightarrow> nat \<times> string \<Rightarrow> nat \<times> string" where
  \<comment> \<open>the \<^verbatim>\<open>for line in lines\<close> loop of \<^verbatim>\<open>del_line\<close>: the counter and what has been
      written so far\<close>
  "del_loop target [] (cnt, out) = (cnt, out)"
| "del_loop target (line # rest) (cnt, out) =
     (if line = target then del_loop target rest (cnt + 1, out)
      else del_loop target rest (cnt, out @ line))"

definition del_text :: "string \<Rightarrow> string \<Rightarrow> string \<Rightarrow> nat \<times> string" where
  \<comment> \<open>\<^verbatim>\<open>del_line\<close> on the stored content: the count returned and the content rewritten\<close>
  "del_text song artist stored = del_loop (pair_line song artist) (readlines stored) (0, [])"

definition contains :: "string \<Rightarrow> string \<Rightarrow> string \<Rightarrow> bool" where
  \<comment> \<open>the membership test of \<^verbatim>\<open>update\<close>: \<^verbatim>\<open>f'{song} by {artist}' in data\<close> with
      \<^verbatim>\<open>data = f.read()\<close>\<close>
  "contains stored song artist \<longleftrightarrow> py_in (pair_text song artist) (read_text stored)"

definition append_text :: "string \<Rightarrow> string \<Rightarrow> string \<Rightarrow> string" where
  \<comment> \<open>the write of \<^verbatim>\<open>update\<close> in mode \<^verbatim>\<open>'a'\<close>: \<^verbatim>\<open>f.write(f'{song} by {artist}\n')\<close>\<close>
  "append_text song artist stored = stored @ pair_line song artist"

fun appends :: "nat \<Rightarrow> string \<Rightarrow> string \<Rightarrow> string \<Rightarrow> string" where
  \<comment> \<open>\<open>n\<close> consecutive writes of the same pair\<close>
  "appends 0 song artist stored = stored"
| "appends (Suc n) song artist stored = appends n song artist (append_text song artist stored)"

definition master_unsupported_text :: "string \<Rightarrow> string" where
  \<comment> \<open>the route \<^verbatim>\<open>/master_unsupported\<close>: \<^verbatim>\<open>f.read()\<close> of the whole file\<close>
  "master_unsupported_text stored = read_text stored"

section \<open>Errors and decoded JSON\<close>

datatype pyerr = KeyError | IndexError | TypeError | AttributeError | ValueError

datatype json =
    JNull
  | JBool bool
  | JNum int
  | JStr string
  | JArr "json list"
  | JObj "(string \<times> json) list"

definition andthen :: "pyerr + 'a \<Rightarrow> ('a \<Rightarrow> pyerr + 'b) \<Rightarrow> pyerr + 'b" where
  \<comment> \<open>sequencing: an exception raised on the left is what the whole expression raises\<close>
  "andthen r f = (case r of Inl err \<Rightarrow> Inl err | Inr v \<Rightarrow> f v)"

fun getitem :: "json \<Rightarrow> string \<Rightarrow> pyerr + json" where
  \<comment> \<open>\<^verbatim>\<open>value[key]\<close> with a string key: only a dict takes it\<close>
  "getitem (JObj items) key = (case map_of items key of None \<Rightarrow> Inl KeyError | Some v \<Rightarrow> Inr v)"
| "getitem other key = Inl TypeError"

fun getitem0 :: "json \<Rightarrow> pyerr + json" where
  \<comment> \<open>\<^verbatim>\<open>value[0]\<close>; a dict decoded from JSON has string keys only, so \<open>0\<close> is never one\<close>
  "getitem0 (JArr []) = Inl IndexError"
| "getitem0 (JArr (x # xs)) = Inr x"
| "getitem0 (JStr []) = Inl IndexError"
| "getitem0 (JStr (c # cs)) = Inr (JStr [c])"
| "getitem0 (JObj items) = Inl KeyError"
| "getitem0 other = Inl TypeError"

fun truthy :: "json \<Rightarrow> bool" where
  \<comment> \<open>the truth value \<^verbatim>\<open>if data:\<close> tests\<close>
  "truthy JNull = False"
| "truthy (JBool b) = b"
| "truthy (JNum n) = (n \<noteq> 0)"
| "truthy (JStr s) = (s \<noteq> [])"
| "truthy (JArr xs) = (xs \<noteq> [])"
| "truthy (JObj items) = (items \<noteq> [])"

fun as_str :: "json \<Rightarrow> pyerr + string" where
  \<comment> \<open>a value handed to \<^verbatim>\<open>re.sub\<close>, \<^verbatim>\<open>wdt.match\<close>, \<^verbatim>\<open>gstr.search\<close> or \<^verbatim>\<open>dt.strptime\<close>:
      they take text and raise TypeError on anything else\<close>
  "as_str (JStr s) = Inr s"
| "as_str other = Inl TypeError"

definition digit_char :: "nat \<Rightarrow> char" where
  "digit_char d = char_of (48 + d)"

function str_nat :: "nat \<Rightarrow> string" where
  \<comment> \<open>how an f-string prints a non-negative \<^verbatim>\<open>int\<close>\<close>
  "str_nat n = (if n < 10 then [digit_char n] else str_nat (n div 10) @ [digit_char (n mod 10)])"
  by pat_completeness auto
termination
  by (relation "measure id") auto

definition str_int :: "int \<Rightarrow> string" where
  \<comment> \<open>how an \<^verbatim>\<open>int\<close> is printed\<close>
  "str_int n = (if n < 0 then ''-'' @ str_nat (nat (- n)) else str_nat (nat n))"

fun sliceable :: "json \<Rightarrow> bool" where
  \<comment> \<open>whether \<^verbatim>\<open>value[:n]\<close> is defined: text and lists can be sliced\<close>
  "sliceable (JStr s) = True"
| "sliceable (JArr xs) = True"
| "sliceable other = False"

section \<open>The outside world: clock, providers, module globals\<close>

text \<open>
  What the module reaches outside itself is made explicit. The providers are a function
  from the request sent to the answer received; the requests sent are recorded. The
  clock is read through \<^verbatim>\<open>time.time()\<close>, whose successive values are given; timestamps
  are real numbers, the rounding of Python's floats is not modelled. The environment
  variables the module reads are taken to be set, and \<^verbatim>\<open>unsupported.txt\<close> to exist.
  The helpers of \<^verbatim>\<open>swaglyrics_backend/utils.py\<close> are not among the sources at hand:
  \<^verbatim>\<open>get_jwt\<close> and \<^verbatim>\<open>get_installation_access_token\<close> appear as the provider's answer to
  the installation-token request, and the webhook starts from the payload that
  \<^verbatim>\<open>validate_request\<close> returned.
\<close>

datatype request =
    InstallationTokenPost
    \<comment> \<open>\<^verbatim>\<open>get_installation_access_token(jwt, INST_ID)\<close>\<close>
  | SpotifyTokenPost
    \<comment> \<open>\<^verbatim>\<open>POST https://accounts.spotify.com/api/token\<close>, client credentials\<close>
  | SpotifySearchGet json string
    \<comment> \<open>\<^verbatim>\<open>GET https://api.spotify.com/v1/search\<close>: bearer token, \<^verbatim>\<open>q\<close>\<close>
  | IssuePost json string string
    \<comment> \<open>\<^verbatim>\<open>POST .../repos/SwagLyrics/Swaglyrics-For-Spotify/issues\<close>: token, title, body;
        the labels are always \<^verbatim>\<open>["unsupported song"]\<close>\<close>
  | GeniusSearchGet string
    \<comment> \<open>\<^verbatim>\<open>GET https://api.genius.com/search\<close>: \<^verbatim>\<open>q\<close>\<close>

text \<open>
  A token is whatever value the provider's answer holds under the key; the request
  carries the value that the f-string of the \<^verbatim>\<open>Authorization\<close> header formats.
\<close>

record response =
  status_code :: int
  json_body :: "json option"
  \<comment> \<open>what \<^verbatim>\<open>r.json()\<close> decodes; \<open>None\<close> when the body is not JSON and it raises
      (\<^verbatim>\<open>JSONDecodeError\<close>, a \<^verbatim>\<open>ValueError\<close>)\<close>

record env =
  stripper :: "string \<Rightarrow> string \<Rightarrow> string"
  \<comment> \<open>\<^verbatim>\<open>swaglyrics.cli.stripper\<close>, a function of another package\<close>
  time_time :: "nat \<Rightarrow> real"
  \<comment> \<open>the value of the \<open>n\<close>-th call of \<^verbatim>\<open>time.time()\<close>, seconds since the epoch\<close>
  strptime_timestamp :: "string \<Rightarrow> real option"
  \<comment> \<open>\<^verbatim>\<open>dt.strptime(s, "%Y-%m-%dT%H:%M:%S%z").timestamp()\<close> of the standard library;
      \<open>None\<close> when \<open>s\<close> does not have the format and it raises \<^verbatim>\<open>ValueError\<close>\<close>
  http :: "request \<Rightarrow> response"
  \<comment> \<open>what each provider answers\<close>
  str_container :: "json \<Rightarrow> string"
  \<comment> \<open>the built-in \<^verbatim>\<open>str()\<close> on a decoded list or dict\<close>
  dict_slice_error :: pyerr
  \<comment> \<open>what slicing a dict raises: \<^verbatim>\<open>TypeError\<close> up to Python 3.11, \<^verbatim>\<open>KeyError\<close> from
      Python 3.12 on, where a slice can be hashed\<close>

record world =
  unsupported_txt :: string
  gh_token :: json
  gh_token_expiry :: real
  spotify_token :: json
  spotify_token_expiry :: real
  time_reads :: nat
  \<comment> \<open>how many times \<^verbatim>\<open>time.time()\<close> has been called\<close>
  sent :: "request list"
  \<comment> \<open>the requests made so far, the latest first\<close>

definition send :: "request \<Rightarrow> world \<Rightarrow> world" where
  "send rq w = w\<lparr>sent := rq # sent w\<rparr>"

definition tick :: "world \<Rightarrow> world" where
  "tick w = w\<lparr>time_reads := Suc (time_reads w)\<rparr>"

definition now :: "env \<Rightarrow> world \<Rightarrow> real" where
  \<comment> \<open>what the next \<^verbatim>\<open>time.time()\<close> returns\<close>
  "now e w = time_time e (time_reads w)"

fun slice_error :: "env \<Rightarrow> json \<Rightarrow> pyerr" where
  \<comment> \<open>what \<^verbatim>\<open>value[:n]\<close> raises on a value that cannot be sliced\<close>
  "slice_error e (JObj items) = dict_slice_error e"
| "slice_error e other = TypeError"

definition print_then_return :: "env \<Rightarrow> json \<Rightarrow> pyerr + json" where
  \<comment> \<open>\<^verbatim>\<open>print(f'... {token[:n]}')\<close> followed by \<^verbatim>\<open>return token\<close>\<close>
  "print_then_return e token = (if sliceable token then Inr token else Inl (slice_error e token))"

fun format_value :: "env \<Rightarrow> json \<Rightarrow> string" where
  \<comment> \<open>how \<^verbatim>\<open>str.format\<close> and an f-string print a decoded value\<close>
  "format_value e (JStr s) = s"
| "format_value e JNull = ''None''"
| "format_value e (JBool b) = (if b then ''True'' else ''False'')"
| "format_value e (JNum n) = str_int n"
| "format_value e other = str_container e other"

section \<open>The token cache\<close>

definition get_github_token :: "env \<Rightarrow> world \<Rightarrow> (pyerr + json) \<times> world" where
  "get_github_token e w =
     (if gh_token_expiry w - 180 > now e w then (print_then_return e (gh_token w), tick w)
      else
        let w1 = send InstallationTokenPost (tick w) in
        case json_body (http e InstallationTokenPost) of
          None \<Rightarrow> (Inl ValueError, w1)
        | Some response \<Rightarrow>
            (case getitem response ''token'' of
               Inl err \<Rightarrow> (Inl err, w1)
             | Inr tok \<Rightarrow>
                 let w2 = w1\<lparr>gh_token := tok\<rparr> in
                 (case andthen (getitem response ''expires_at'') as_str of
                    Inl err \<Rightarrow> (Inl err, w2)
                  | Inr stamp \<Rightarrow>
                      (case strptime_timestamp e stamp of
                         None \<Rightarrow> (Inl ValueError, w2)
                       | Some expiry \<Rightarrow>
                           (print_then_return e tok, w2\<lparr>gh_token_expiry := expiry\<rparr>)))))"

definition get_spotify_token :: "env \<Rightarrow> world \<Rightarrow> (pyerr + json) \<times> world" where
  "get_spotify_token e w =
     (if spotify_token_expiry w - 300 > now e w
      then (print_then_return e (spotify_token w), tick w)
      else
        let w1 = send SpotifyTokenPost (tick w) in
        case json_body (http e SpotifyTokenPost) of
          None \<Rightarrow> (Inl ValueError, w1)
        | Some payload \<Rightarrow>
            (case getitem payload ''access_token'' of
               Inl err \<Rightarrow> (Inl err, w1)
             | Inr tok \<Rightarrow>
                 (print_then_return e tok,
                  tick (w1\<lparr>spotify_token := tok,
                            spotify_token_expiry := now e w1 + 3600\<rparr>))))"

section \<open>The title matcher and the Genius lookup\<close>

definition alg_keeps :: "char \<Rightarrow> bool" where
  \<comment> \<open>the characters outside the class \<^verbatim>\<open>[^\sa-zA-Z0-9]\<close> of the pattern \<^verbatim>\<open>alg\<close>\<close>
  "alg_keeps c \<longleftrightarrow> isspace c \<or> isalpha_ascii c \<or> isdigit_ascii c"

definition sub_alg :: "string \<Rightarrow> string" where
  \<comment> \<open>\<^verbatim>\<open>re.sub(alg, '', s)\<close>: every run of characters of the class is deleted\<close>
  "sub_alg s = filter alg_keeps s"

fun mismatch_loop :: "string list \<Rightarrow> string \<Rightarrow> nat \<Rightarrow> nat \<Rightarrow> bool" where
  \<comment> \<open>the loop of \<^verbatim>\<open>is_title_mismatched\<close>; the last argument is \<^verbatim>\<open>err_cnt\<close>\<close>
  "mismatch_loop [] full_title max_err err_cnt = False"
| "mismatch_loop (word # rest) full_title max_err err_cnt =
     (if \<not> py_in (lower word) (lower full_title)
      then (if err_cnt + 1 > max_err then True
            else mismatch_loop rest full_title max_err (err_cnt + 1))
      else mismatch_loop rest full_title max_err err_cnt)"

definition is_title_mismatched :: "string list \<Rightarrow> string \<Rightarrow> nat \<Rightarrow> bool" where
  "is_title_mismatched words full_title max_err = mismatch_loop words full_title max_err 0"

definition genius_words :: "string \<Rightarrow> string \<Rightarrow> string list" where
  \<comment> \<open>\<^verbatim>\<open>words\<close> of \<^verbatim>\<open>genius_stripper\<close>\<close>
  "genius_words song artist = py_split (sub_alg (pair_text song artist))"

definition genius_max_err :: "string \<Rightarrow> string \<Rightarrow> nat" where
  \<comment> \<open>\<^verbatim>\<open>max_err = len(words) // 2\<close>\<close>
  "genius_max_err song artist = length (genius_words song artist) div 2"

definition hit_accepted :: "string \<Rightarrow> string \<Rightarrow> string \<Rightarrow> bool" where
  \<comment> \<open>the test \<^verbatim>\<open>genius_stripper\<close> makes on the \<^verbatim>\<open>full_title\<close> of a hit\<close>
  "hit_accepted song artist full_title \<longleftrightarrow>
     \<not> is_title_mismatched (genius_words song artist) (sub_alg full_title)
          (genius_max_err song artist)"

fun first_some :: "('a \<Rightarrow> 'b option) \<Rightarrow> 'a list \<Rightarrow> 'b option" where
  \<comment> \<open>the first alternative that succeeds, in the order a backtracking matcher tries them\<close>
  "first_some f [] = None"
| "first_some f (x # xs) = (case f x of Some y \<Rightarrow> Some y | None \<Rightarrow> first_some f xs)"

definition longest_first :: "nat \<Rightarrow> nat list" where
  \<comment> \<open>the lengths a greedy \<^verbatim>\<open>+\<close> tries for a run of at most \<open>n\<close>: \<open>n\<close> down to 1\<close>
  "longest_first n = rev [1..<Suc n]"

definition gstr_class :: "char \<Rightarrow> bool" where
  \<comment> \<open>the class \<^verbatim>\<open>[-a-zA-Z0-9]\<close>\<close>
  "gstr_class c \<longleftrightarrow> c = CHR ''-'' \<or> isalpha_ascii c \<or> isdigit_ascii c"

definition gstr_here :: "string \<Rightarrow> string option" where
  \<comment> \<open>\<^verbatim>\<open>[-a-zA-Z0-9]+(?=-lyrics$)\<close> matched at the start of \<open>s\<close>; \<^verbatim>\<open>$\<close> is the end of
      the string or the place before a final newline\<close>
  "gstr_here s =
     first_some
       (\<lambda>n. if drop n s = ''-lyrics'' \<or> drop n s = ''-lyrics'' @ [LF] then Some (take n s)
            else None)
       (longest_first (length (takeWhile gstr_class s)))"

fun gstr_search :: "string \<Rightarrow> string option" where
  \<comment> \<open>\<^verbatim>\<open>gstr.search(path)\<close> with \<^verbatim>\<open>gstr = (?<=/)[-a-zA-Z0-9]+(?=-lyrics$)\<close>: the leftmost
      match, which starts right after a slash; the result is \<^verbatim>\<open>path.group()\<close>\<close>
  "gstr_search [] = None"
| "gstr_search (c # cs) =
     (if c = CHR ''/'' then (case gstr_here cs of Some m \<Rightarrow> Some m | None \<Rightarrow> gstr_search cs)
      else gstr_search cs)"

fun hits_loop :: "string \<Rightarrow> string \<Rightarrow> json list \<Rightarrow> pyerr + string option" where
  \<comment> \<open>the loop \<^verbatim>\<open>for hit in hits\<close> of \<^verbatim>\<open>genius_stripper\<close>\<close>
  "hits_loop song artist [] = Inr None"
| "hits_loop song artist (hit # rest) =
     (case andthen (andthen (getitem hit ''result'') (\<lambda>r. getitem r ''full_title'')) as_str of
        Inl err \<Rightarrow> Inl err
      | Inr full_title \<Rightarrow>
          if hit_accepted song artist full_title
          then (case andthen (andthen (getitem hit ''result'') (\<lambda>r. getitem r ''path'')) as_str of
                  Inl err \<Rightarrow> Inl err
                | Inr path \<Rightarrow>
                    (case gstr_search path of
                       Some found \<Rightarrow> Inr (Some found)
                     | None \<Rightarrow> hits_loop song artist rest))
          else hits_loop song artist rest)"

fun iterate :: "json \<Rightarrow> pyerr + json list" where
  \<comment> \<open>what \<^verbatim>\<open>for hit in hits\<close> walks over: the items of a list, the keys of a dict,
      the characters of a string\<close>
  "iterate (JArr xs) = Inr xs"
| "iterate (JObj items) = Inr (map (\<lambda>(k, v). JStr k) items)"
| "iterate (JStr s) = Inr (map (\<lambda>c. JStr [c]) s)"
| "iterate other = Inl TypeError"

definition genius_stripper :: "env \<Rightarrow> world \<Rightarrow> string \<Rightarrow> string \<Rightarrow> (pyerr + string option) \<times> world" where
  "genius_stripper e w song artist =
     (let rq = GeniusSearchGet (song @ '' '' @ artist);
          r = http e rq;
          w1 = send rq w
      in if status_code r = 200
         then (case json_body r of
                 None \<Rightarrow> (Inl ValueError, w1)
               | Some data \<Rightarrow>
                   (case andthen (getitem data ''meta'') (\<lambda>m. getitem m ''status'') of
                      Inl err \<Rightarrow> (Inl err, w1)
                    | Inr status \<Rightarrow>
                        if status = JNum 200
                        then (andthen (andthen (andthen (getitem data ''response'')
                                                  (\<lambda>x. getitem x ''hits'')) iterate)
                                (hits_loop song artist), w1)
                        else (Inr None, w1)))
         else (Inr None, w1))"

section \<open>Legitimacy check and issue creation\<close>

definition check_song :: "env \<Rightarrow> world \<Rightarrow> string \<Rightarrow> string \<Rightarrow> (pyerr + bool) \<times> world" where
  "check_song e w song artist =
     (case get_spotify_token e w of
        (Inl err, w1) \<Rightarrow> (Inl err, w1)
      | (Inr tok, w1) \<Rightarrow>
          let rq = SpotifySearchGet tok (song @ '' '' @ artist);
              w2 = send rq w1
          in (case json_body (http e rq) of
                None \<Rightarrow> (Inl ValueError, w2)
              | Some body \<Rightarrow>
                  (case andthen (getitem body ''tracks'') (\<lambda>t. getitem t ''items'') of
                     Inl KeyError \<Rightarrow> (Inr False, w2)
                   | Inl err \<Rightarrow> (Inl err, w2)
                   | Inr data \<Rightarrow>
                       if truthy data
                       then (andthen (getitem0 data) (\<lambda>first.
                               andthen (andthen (andthen (getitem first ''artists'') getitem0)
                                          (\<lambda>a. getitem a ''name'')) (\<lambda>artist_name.
                               andthen (getitem first ''name'') (\<lambda>name.
                               Inr (name = JStr song \<and> artist_name = JStr artist)))), w2)
                       else (Inr False, w2))))"

definition issue_title :: "string \<Rightarrow> string \<Rightarrow> string" where
  "issue_title song artist = song @ '' by '' @ artist @ '' unsupported.''"

definition issue_body :: "string \<Rightarrow> string \<Rightarrow> string" where
  "issue_body version stripped =
     ''Check if issue with swaglyrics or whether song lyrics unavailable on Genius. '' @ [LF] @
     ''<hr>'' @ [LF] @ '' <tt><b>stripper -> '' @ stripped @ ''</b>'' @ [LF] @ [LF] @
     ''version -> '' @ version @ ''</tt>''"

definition create_issue ::
  "env \<Rightarrow> world \<Rightarrow> string \<Rightarrow> string \<Rightarrow> string \<Rightarrow> string \<Rightarrow> (pyerr + int \<times> json) \<times> world" where
  \<comment> \<open>the result pair is the dict \<^verbatim>\<open>{'status_code': ..., 'link': ...}\<close>\<close>
  "create_issue e w song artist version stripped =
     (case get_github_token e w of
        (Inl err, w1) \<Rightarrow> (Inl err, w1)
      | (Inr tok, w1) \<Rightarrow>
          let rq = IssuePost tok (issue_title song artist) (issue_body version stripped);
              r = http e rq;
              w2 = send rq w1
          in (case json_body r of
                None \<Rightarrow> (Inl ValueError, w2)
              | Some body \<Rightarrow>
                  (case getitem body ''html_url'' of
                     Inl err \<Rightarrow> (Inl err, w2)
                   | Inr link \<Rightarrow> (Inr (status_code r, link), w2))))"

section \<open>The route \<^verbatim>\<open>/unsupported\<close>\<close>

definition gh_issue_text :: string where
  "gh_issue_text =
     ''If you feel there's an error, open a ticket at '' @
     ''https://github.com/SwagLyrics/SwagLyrics-For-Spotify/issues''"

definition update_text :: string where
  "update_text = ''Please update SwagLyrics to the latest version to get better support :)''"

definition exists_text :: string where
  "exists_text =
     ''Issue already exists on the GitHub repo. '' @ [LF] @
     ''https://github.com/SwagLyrics/SwagLyrics-For-Spotify/issues''"

definition may_not_exist_text :: "string \<Rightarrow> string \<Rightarrow> string" where
  "may_not_exist_text song artist =
     ''Lyrics for '' @ song @ '' by '' @ artist @ '' may not exist on Genius.'' @ [LF] @
     gh_issue_text"

definition created_text :: "string \<Rightarrow> string \<Rightarrow> string \<Rightarrow> string" where
  "created_text song artist link =
     ''Lyrics for that song may not exist on Genius. '' @
     ''Created issue on the GitHub repo for '' @ song @ '' by '' @ artist @
     '' to investigate further. '' @ [LF] @ link"

definition logged_text :: "string \<Rightarrow> string \<Rightarrow> string" where
  "logged_text song artist = ''Logged '' @ song @ '' by '' @ artist @ '' in the server.''"

definition fishy_text :: string where
  "fishy_text =
     ''That's a fishy request, that song doesn't seem to exist on Spotify. '' @ [LF] @
     gh_issue_text"

definition asrg_fullmatch :: "string \<Rightarrow> bool" where
  \<comment> \<open>\<^verbatim>\<open>re.fullmatch(asrg, s)\<close> with \<^verbatim>\<open>asrg = [A-Za-z\s]+\<close>\<close>
  "asrg_fullmatch s \<longleftrightarrow> s \<noteq> [] \<and> list_all (\<lambda>c. isalpha_ascii c \<or> isspace c) s"

definition update ::
  "env \<Rightarrow> world \<Rightarrow> string \<Rightarrow> string \<Rightarrow> string option \<Rightarrow> (pyerr + string) \<times> world" where
  \<comment> \<open>the form fields \<^verbatim>\<open>song\<close> and \<^verbatim>\<open>artist\<close>, and \<^verbatim>\<open>version\<close> when the form has it\<close>
  "update e w song artist form_version =
     (let stripped = stripper e song artist in
      case form_version of
        None \<Rightarrow> (Inr update_text, w)
      | Some version \<Rightarrow>
          if version < ''1.1.1'' then (Inr update_text, w)
          else if contains (unsupported_txt w) song artist then (Inr exists_text, w)
          else if asrg_fullmatch song \<and> asrg_fullmatch artist
          then (Inr (may_not_exist_text song artist), w)
          else (case check_song e w song artist of
                  (Inl err, w1) \<Rightarrow> (Inl err, w1)
                | (Inr False, w1) \<Rightarrow> (Inr fishy_text, w1)
                | (Inr True, w1) \<Rightarrow>
                    let w2 = w1\<lparr>unsupported_txt := append_text song artist (unsupported_txt w1)\<rparr>
                    in (case create_issue e w2 song artist version stripped of
                          (Inl err, w3) \<Rightarrow> (Inl err, w3)
                        | (Inr (status, link), w3) \<Rightarrow>
                            if status = 201
                            then (Inr (created_text song artist (format_value e link)), w3)
                            else (Inr (logged_text song artist), w3))))"

section \<open>Removal, and the webhook \<^verbatim>\<open>/issue_closed\<close>\<close>

definition del_line :: "string \<Rightarrow> string \<Rightarrow> world \<Rightarrow> nat \<times> world" where
  "del_line song artist w =
     (case del_text song artist (unsupported_txt w) of
        (cnt, out) \<Rightarrow> (cnt, w\<lparr>unsupported_txt := out\<rparr>))"

definition dot :: "char \<Rightarrow> bool" where
  \<comment> \<open>\<^verbatim>\<open>.\<close> of a pattern compiled without flags: any character but the newline\<close>
  "dot c \<longleftrightarrow> c \<noteq> LF"

definition wdt_rest :: "string \<Rightarrow> string option" where
  \<comment> \<open>\<^verbatim>\<open>(.+) unsupported.\<close> matched at the start of \<open>s\<close>: the group\<close>
  "wdt_rest s =
     first_some
       (\<lambda>n. if prefix '' unsupported'' (drop n s) \<and>
               (case drop (n + 12) s of [] \<Rightarrow> False | c # cs \<Rightarrow> dot c)
            then Some (take n s) else None)
       (longest_first (length (takeWhile dot s)))"

definition wdt_match :: "string \<Rightarrow> (string \<times> string) option" where
  \<comment> \<open>\<^verbatim>\<open>wdt.match(title)\<close> with \<^verbatim>\<open>wdt = (.+) by (.+) unsupported.\<close>: groups 1 and 2,
      or \<open>None\<close>\<close>
  "wdt_match s =
     first_some
       (\<lambda>n. if prefix '' by '' (drop n s)
            then map_option (\<lambda>artist. (take n s, artist)) (wdt_rest (drop (n + 4) s))
            else None)
       (longest_first (length (takeWhile dot s)))"

definition not_relevant :: string where
  "not_relevant = ''Event type not unsupported song issue closed.''"

definition msg_text :: "string \<Rightarrow> string" where
  \<comment> \<open>\<^verbatim>\<open>json.dumps({'msg': m})\<close> for the plain messages the module sends\<close>
  "msg_text m = ''{'' @ [CHR 0x22] @ ''msg'' @ [CHR 0x22] @ '': '' @ [CHR 0x22] @ m @ [CHR 0x22] @ ''}''"

definition deleted_text :: "nat \<Rightarrow> string" where
  "deleted_text cnt = ''Deleted '' @ str_nat cnt @ '' instances from unsupported.txt''"

definition github_webhook :: "world \<Rightarrow> string option \<Rightarrow> json \<Rightarrow> (pyerr + string) \<times> world" where
  \<comment> \<open>the header \<^verbatim>\<open>X-GitHub-Event\<close> and the payload \<^verbatim>\<open>validate_request\<close> hands over\<close>
  "github_webhook w event payload =
     (if event = Some ''ping'' then (Inr (msg_text ''pong''), w)
      else if event = Some ''issues''
      then (case andthen
                   (andthen (andthen (andthen (getitem payload ''issue'')
                      (\<lambda>i. getitem i ''labels'')) getitem0) (\<lambda>l. getitem l ''name''))
                   (\<lambda>label. andthen (andthen (getitem payload ''repository'')
                      (\<lambda>r. getitem r ''name'')) (\<lambda>repo. Inr (label, repo))) of
              Inl IndexError \<Rightarrow> (Inr not_relevant, w)
            | Inl err \<Rightarrow> (Inl err, w)
            | Inr (label, repo) \<Rightarrow>
                (case getitem payload ''action'' of
                   Inl err \<Rightarrow> (Inl err, w)
                 | Inr action \<Rightarrow>
                     if action = JStr ''closed'' \<and> label = JStr ''unsupported song'' \<and>
                        repo = JStr ''SwagLyrics-For-Spotify''
                     then (case andthen (andthen (getitem payload ''issue'')
                                   (\<lambda>i. getitem i ''title'')) as_str of
                             Inl err \<Rightarrow> (Inl err, w)
                           | Inr title \<Rightarrow>
                               (case wdt_match title of
                                  None \<Rightarrow> (Inl AttributeError, w)
                                | Some (song, artist) \<Rightarrow>
                                    (case del_line song artist w of
                                       (cnt, w1) \<Rightarrow> (Inr (deleted_text cnt), w1))))
                     else (Inr not_relevant, w)))
      else (Inr (msg_text ''Wrong event type''), w))"

section \<open>Sequences of requests, and providers for the worked examples\<close>

fun updates :: "world \<Rightarrow> (env \<times> string \<times> string \<times> string option) list \<Rightarrow> world" where
  \<comment> \<open>the world after successive requests to \<^verbatim>\<open>/unsupported\<close>, each served to its end
      under what the providers answer at that moment\<close>
  "updates w [] = w"
| "updates w ((e, song, artist, form_version) # rest) =
     updates (snd (update e w song artist form_version)) rest"

definition is_issue_post :: "string \<Rightarrow> request \<Rightarrow> bool" where
  "is_issue_post title rq =
     (case rq of IssuePost tok t body \<Rightarrow> t = title | other \<Rightarrow> False)"

definition issue_posts :: "string \<Rightarrow> world \<Rightarrow> request list" where
  \<comment> \<open>the issue-creation calls made so far with the given title\<close>
  "issue_posts title w = filter (is_issue_post title) (sent w)"

definition track_json :: "string \<Rightarrow> string \<Rightarrow> json" where
  \<comment> \<open>a track object of the Spotify search answer, reduced to the fields the module reads\<close>
  "track_json song artist =
     JObj [(''name'', JStr song), (''artists'', JArr [JObj [(''name'', JStr artist)]])]"

definition providers :: "string \<Rightarrow> string \<Rightarrow> response \<Rightarrow> request \<Rightarrow> response" where
  \<comment> \<open>providers that hand out tokens, answer every track search with the given track
      as first item, and answer an issue creation as given\<close>
  "providers song artist issue_answer rq =
     (case rq of
        InstallationTokenPost \<Rightarrow>
          \<lparr>status_code = 201,
           json_body = Some (JObj [(''token'', JStr ''ghs_token''),
                                   (''expires_at'', JStr ''2026-01-01T00:00:00Z'')])\<rparr>
      | SpotifyTokenPost \<Rightarrow>
          \<lparr>status_code = 200,
           json_body = Some (JObj [(''access_token'', JStr ''spotify_token'')])\<rparr>
      | SpotifySearchGet tok q \<Rightarrow>
          \<lparr>status_code = 200,
           json_body =
             Some (JObj [(''tracks'', JObj [(''items'', JArr [track_json song artist])])])\<rparr>
      | IssuePost tok title body \<Rightarrow> issue_answer
      | GeniusSearchGet q \<Rightarrow> \<lparr>status_code = 404, json_body = None\<rparr>)"

definition created_answer :: response where
  \<comment> \<open>the issue provider creates the issue\<close>
  "created_answer =
     \<lparr>status_code = 201,
      json_body =
        Some (JObj [(''html_url'',
                     JStr ''https://github.com/SwagLyrics/SwagLyrics-For-Spotify/issues/1'')])\<rparr>"

definition refused_answer :: response where
  \<comment> \<open>the issue provider refuses: an error status and an error object\<close>
  "refused_answer =
     \<lparr>status_code = 401, json_body = Some (JObj [(''message'', JStr ''Bad credentials'')])\<rparr>"

definition test_env :: "string \<Rightarrow> string \<Rightarrow> response \<Rightarrow> env" where
  \<comment> \<open>an environment for the examples: a stand-in for \<^verbatim>\<open>stripper\<close>, a clock that starts at
      second 1000 and advances by one second per reading, one timestamp that parses, a
      printer that knows the empty list and the empty dict only, and the dict slicing of
      Python up to 3.11; no example prints a list or a dict\<close>
  "test_env song artist issue_answer =
     \<lparr>stripper = (\<lambda>s a. a @ ''-'' @ s),
      time_time = (\<lambda>n. 1000 + real n),
      strptime_timestamp =
        (\<lambda>s. if s = ''2026-01-01T00:00:00Z'' then Some 1767225600 else None),
      http = providers song artist issue_answer,
      str_container = (\<lambda>v. if v = JArr [] then ''[]'' else if v = JObj [] then ''{}'' else ''...''),
      dict_slice_error = TypeError\<rparr>"

definition world0 :: "string \<Rightarrow> world" where
  \<comment> \<open>the module as loaded (empty tokens, expiry 0) over a ledger with the given content\<close>
  "world0 stored =
     \<lparr>unsupported_txt = stored, gh_token = JStr [], gh_token_expiry = 0,
      spotify_token = JStr [], spotify_token_expiry = 0, time_reads = 0, sent = []\<rparr>"

definition cached_world :: world where
  \<comment> \<open>a module whose two tokens are cached and expire at second 5000\<close>
  "cached_world =
     \<lparr>unsupported_txt = [], gh_token = JStr ''cached_gh'', gh_token_expiry = 5000,
      spotify_token = JStr ''cached_spotify'', spotify_token_expiry = 5000, time_reads = 0,
      sent = []\<rparr>"

definition closed_issue :: "string \<Rightarrow> json" where
  \<comment> \<open>an \<^verbatim>\<open>issues\<close> event: an unsupported-song issue of the expected repository,
      closed, with the given title\<close>
  "closed_issue title =
     JObj [(''action'', JStr ''closed''),
           (''issue'', JObj [(''title'', JStr title),
                             (''labels'', JArr [JObj [(''name'', JStr ''unsupported song'')]])]),
           (''repository'', JObj [(''name'', JStr ''SwagLyrics-For-Spotify'')])]"

section \<open>Notions used to state the properties\<close>






definition terminated :: "string \<Rightarrow> bool" where
  \<comment> \<open>a line that ends with its newline and has no other\<close>
  "terminated l \<longleftrightarrow> (\<exists>body. l = body @ [LF] \<and> LF \<notin> set body)"

definition unterminated :: "string \<Rightarrow> bool" where
  \<comment> \<open>a last line without newline\<close>
  "unterminated l \<longleftrightarrow> l \<noteq> [] \<and> LF \<notin> set l"

fun file_lines :: "string list \<Rightarrow> bool" where
  \<comment> \<open>the shape of what \<^verbatim>\<open>readlines\<close> returns: only the last line may lack its newline\<close>
  "file_lines [] = True"
| "file_lines [l] = (terminated l \<or> unterminated l)"
| "file_lines (l # m # ls) = (terminated l \<and> file_lines (m # ls))"

section \<open>Basic facts\<close>

lemma py_in_sublist: "py_in x s \<longleftrightarrow> sublist x s"
  by (induction s) (auto simp: sublist_Cons_right)

lemma LF_neq_CR [simp]: "LF \<noteq> CR" "CR \<noteq> LF"
  by (simp_all add: LF_def CR_def)

section \<open>The title matcher\<close>












lemma hits_loop_single:
  "hits_loop song artist [JObj [(''result'', JObj [(''full_title'', JStr t), (''path'', JStr p)])]]
     = Inr (if hit_accepted song artist t then gstr_search p else None)"
  by (simp add: andthen_def split: option.splits)



section \<open>The token cache\<close>

lemma returned_token_sliceable:
  "fst (get_github_token e w) = Inr tok \<Longrightarrow>
     gh_token (snd (get_github_token e w)) = tok \<and> sliceable tok"
  "fst (get_spotify_token e w) = Inr tok' \<Longrightarrow>
     spotify_token (snd (get_spotify_token e w)) = tok' \<and> sliceable tok'"
  by (auto simp: get_github_token_def get_spotify_token_def print_then_return_def Let_def
      tick_def send_def split: if_splits option.splits sum.splits)

text \<open>
  Claim C6. Each provider's token is returned as cached, with no request sent and
  nothing but the clock read, while \<open>now < expiry - margin\<close>, the margin being 180 seconds
  for the installation token and 300 seconds for the client-credentials token; the
  cached token is text (or a list), as the module's initial token and every token a call
  has returned are, so that the line printing its first characters passes. Otherwise
  the refresh request is sent and, the answer carrying the token (and, for the
  installation token, an \<^verbatim>\<open>expires_at\<close> that parses), token and expiry are both
  overwritten and the new token is returned: the installation expiry is the parsed
  \<^verbatim>\<open>expires_at\<close>, the client-credentials expiry is the clock read after the answer plus
  3600 seconds.
\<close>

theorem token_cache:
  "(now e w < gh_token_expiry w - 180 \<longrightarrow> sliceable (gh_token w) \<longrightarrow>
      get_github_token e w = (Inr (gh_token w), tick w)) \<and>
   (\<not> now e w < gh_token_expiry w - 180 \<longrightarrow>
    json_body (http e InstallationTokenPost) = Some payload \<longrightarrow>
    getitem payload ''token'' = Inr (JStr tok) \<longrightarrow>
    getitem payload ''expires_at'' = Inr (JStr stamp) \<longrightarrow>
    strptime_timestamp e stamp = Some expiry \<longrightarrow>
      get_github_token e w
        = (Inr (JStr tok),
           (send InstallationTokenPost (tick w))
             \<lparr>gh_token := JStr tok, gh_token_expiry := expiry\<rparr>)) \<and>
   (now e w < spotify_token_expiry w - 300 \<longrightarrow> sliceable (spotify_token w) \<longrightarrow>
      get_spotify_token e w = (Inr (spotify_token w), tick w)) \<and>
   (\<not> now e w < spotify_token_expiry w - 300 \<longrightarrow>
    json_body (http e SpotifyTokenPost) = Some payload' \<longrightarrow>
    getitem payload' ''access_token'' = Inr (JStr tok') \<longrightarrow>
      get_spotify_token e w
        = (Inr (JStr tok'),
           tick ((send SpotifyTokenPost (tick w))
             \<lparr>spotify_token := JStr tok',
               spotify_token_expiry := time_time e (Suc (time_reads w)) + 3600\<rparr>)))"
  by (simp add: get_github_token_def get_spotify_token_def print_then_return_def andthen_def
      Let_def now_def tick_def send_def)

theorem token_cache_witness:
  "get_github_token (test_env [] [] created_answer) cached_world
     = (Inr (JStr ''cached_gh''), tick cached_world) \<and>
   get_spotify_token (test_env [] [] created_answer) cached_world
     = (Inr (JStr ''cached_spotify''), tick cached_world) \<and>
   get_github_token (test_env [] [] created_answer) (world0 [])
     = (Inr (JStr ''ghs_token''),
        (send InstallationTokenPost (tick (world0 [])))
          \<lparr>gh_token := JStr ''ghs_token'', gh_token_expiry := 1767225600\<rparr>) \<and>
   get_spotify_token (test_env [] [] created_answer) (world0 [])
     = (Inr (JStr ''spotify_token''),
        tick ((send SpotifyTokenPost (tick (world0 [])))
          \<lparr>spotify_token := JStr ''spotify_token'', spotify_token_expiry := 1001 + 3600\<rparr>))"
proof -
  let ?e = "test_env [] [] created_answer"
  let ?gh = "JObj [(''token'', JStr ''ghs_token''), (''expires_at'', JStr ''2026-01-01T00:00:00Z'')]"
  let ?sp = "JObj [(''access_token'', JStr ''spotify_token'')]"
  note fresh = token_cache [of ?e cached_world ?gh "''ghs_token''" "''2026-01-01T00:00:00Z''"
      1767225600 ?sp "''spotify_token''"]
  note stale = token_cache [of ?e "world0 []" ?gh "''ghs_token''" "''2026-01-01T00:00:00Z''"
      1767225600 ?sp "''spotify_token''"]
  have early: "now ?e cached_world < gh_token_expiry cached_world - 180"
    "now ?e cached_world < spotify_token_expiry cached_world - 300"
    by (simp_all add: now_def test_env_def cached_world_def)
  have sliced: "sliceable (gh_token cached_world)" "sliceable (spotify_token cached_world)"
    by (simp_all add: cached_world_def)
  have late: "\<not> now ?e (world0 []) < gh_token_expiry (world0 []) - 180"
    "\<not> now ?e (world0 []) < spotify_token_expiry (world0 []) - 300"
    by (simp_all add: now_def test_env_def world0_def)
  have answers: "json_body (http ?e InstallationTokenPost) = Some ?gh"
    "json_body (http ?e SpotifyTokenPost) = Some ?sp"
    by (simp_all add: test_env_def providers_def)
  have fields: "getitem ?gh ''token'' = Inr (JStr ''ghs_token'')"
    "getitem ?gh ''expires_at'' = Inr (JStr ''2026-01-01T00:00:00Z'')"
    "getitem ?sp ''access_token'' = Inr (JStr ''spotify_token'')"
    by simp_all
  have parsed: "strptime_timestamp ?e ''2026-01-01T00:00:00Z'' = Some 1767225600"
    by (simp add: test_env_def)
  have clock: "time_time ?e (Suc (time_reads (world0 []))) = 1001"
    by (simp add: test_env_def world0_def)
  from fresh early sliced
  have a: "get_github_token ?e cached_world = (Inr (gh_token cached_world), tick cached_world)"
    and b: "get_spotify_token ?e cached_world
      = (Inr (spotify_token cached_world), tick cached_world)"
    by blast+
  from stale late answers fields parsed
  have c: "get_github_token ?e (world0 [])
     = (Inr (JStr ''ghs_token''),
        (send InstallationTokenPost (tick (world0 [])))
          \<lparr>gh_token := JStr ''ghs_token'', gh_token_expiry := 1767225600\<rparr>)"
    and d: "get_spotify_token ?e (world0 [])
     = (Inr (JStr ''spotify_token''),
        tick ((send SpotifyTokenPost (tick (world0 [])))
          \<lparr>spotify_token := JStr ''spotify_token'',
            spotify_token_expiry := time_time ?e (Suc (time_reads (world0 []))) + 3600\<rparr>))"
    by blast+
  from a b c d clock show ?thesis by (simp add: cached_world_def)
qed

section \<open>The ledger: reading, appending, removing\<close>

lemma del_loop_filter:
  "del_loop target ls (cnt, out)
     = (cnt + length (filter (\<lambda>l. l = target) ls), out @ concat (filter (\<lambda>l. l \<noteq> target) ls))"
  by (induction ls arbitrary: cnt out) auto

lemma del_text_filter:
  "del_text song artist stored
     = (length (filter (\<lambda>l. l = pair_line song artist) (readlines stored)),
        concat (filter (\<lambda>l. l \<noteq> pair_line song artist) (readlines stored)))"
  by (simp add: del_text_def del_loop_filter)

lemma read_text_no_CR: "CR \<notin> set (read_text s)"
  by (induction s rule: read_text.induct) auto

lemma read_text_id: "CR \<notin> set s \<Longrightarrow> read_text s = s"
  by (induction s rule: read_text.induct) auto

lemma read_text_append:
  "b = [] \<or> hd b \<noteq> LF \<Longrightarrow> read_text (a @ b) = read_text a @ read_text b"
proof (induction a rule: read_text.induct)
  case 1
  then show ?case by simp
next
  case (2 c)
  then show ?case by (cases b) auto
next
  case (3 c d cs)
  then show ?case by auto
qed

lemma read_text_prefix: "prefix (read_text a) (read_text (a @ b))"
proof (induction a rule: read_text.induct)
  case 1
  then show ?case by simp
next
  case (2 c)
  then show ?case by (cases b) auto
next
  case (3 c d cs)
  then show ?case by auto
qed

lemma lines_of_Nil_iff [simp]: "lines_of s = [] \<longleftrightarrow> s = []"
  by (cases s) (auto split: list.splits)

lemma lines_of_append:
  "a = [] \<or> last a = LF \<Longrightarrow> lines_of (a @ b) = lines_of a @ lines_of b"
proof (induction a)
  case Nil
  then show ?case by simp
next
  case (Cons c a)
  show ?case
  proof (cases "a = []")
    case True
    with Cons.prems show ?thesis by simp
  next
    case False
    with Cons.prems have "last a = LF" by simp
    with Cons.IH have step: "lines_of (a @ b) = lines_of a @ lines_of b" by simp
    from False obtain l ls where "lines_of a = l # ls"
      by (cases "lines_of a") auto
    with step show ?thesis by simp
  qed
qed

lemma lines_of_terminated: "LF \<notin> set l \<Longrightarrow> lines_of (l @ LF # s) = (l @ [LF]) # lines_of s"
  by (induction l) auto

lemma lines_of_single: "LF \<notin> set l \<Longrightarrow> lines_of (l @ [LF]) = [l @ [LF]]"
  using lines_of_terminated [of l "[]"] by simp

lemma lines_of_open: "LF \<notin> set l \<Longrightarrow> l \<noteq> [] \<Longrightarrow> lines_of l = [l]"
proof (induction l)
  case Nil
  then show ?case by simp
next
  case (Cons c l)
  then show ?case by (cases "l = []") auto
qed

lemma terminated_LF [simp]: "terminated [LF]"
  by (simp add: terminated_def)

lemma terminated_Cons: "c \<noteq> LF \<Longrightarrow> terminated l \<Longrightarrow> terminated (c # l)"
  unfolding terminated_def
proof -
  assume c: "c \<noteq> LF" and "\<exists>body. l = body @ [LF] \<and> LF \<notin> set body"
  then obtain body where "l = body @ [LF]" "LF \<notin> set body" by blast
  with c have "c # l = (c # body) @ [LF] \<and> LF \<notin> set (c # body)" by simp
  then show "\<exists>body. c # l = body @ [LF] \<and> LF \<notin> set body" by blast
qed

lemma unterminated_Cons: "c \<noteq> LF \<Longrightarrow> unterminated l \<Longrightarrow> unterminated (c # l)"
  by (simp add: unterminated_def)

lemma file_lines_Cons: "terminated l \<Longrightarrow> file_lines ls \<Longrightarrow> file_lines (l # ls)"
  by (cases ls) auto

lemma file_lines_tail: "file_lines (l # ls) \<Longrightarrow> file_lines ls"
  by (cases ls) auto

lemma file_lines_head: "file_lines (l # ls) \<Longrightarrow> ls \<noteq> [] \<Longrightarrow> terminated l"
  by (cases ls) auto

lemma file_lines_lines_of: "file_lines (lines_of s)"
proof (induction s)
  case Nil
  then show ?case by simp
next
  case (Cons c s)
  show ?case
  proof (cases "c = LF")
    case True
    with Cons show ?thesis by (simp add: file_lines_Cons)
  next
    case False
    show ?thesis
    proof (cases "lines_of s")
      case Nil
      with False show ?thesis by (simp add: unterminated_def)
    next
      case (Cons l ls)
      with Cons.IH have fl: "file_lines (l # ls)" by simp
      show ?thesis
      proof (cases ls)
        case Nil
        with fl False Cons show ?thesis
          by (auto simp: terminated_Cons unterminated_Cons)
      next
        case (Cons m ms)
        with fl False \<open>lines_of s = l # ls\<close> show ?thesis
          by (auto simp: terminated_Cons)
      qed
    qed
  qed
qed

lemma file_lines_filter: "file_lines ls \<Longrightarrow> file_lines (filter P ls)"
proof (induction ls)
  case Nil
  then show ?case by simp
next
  case (Cons l ls)
  from Cons.prems have tail: "file_lines ls" by (rule file_lines_tail)
  with Cons.IH have kept: "file_lines (filter P ls)" by simp
  show ?case
  proof (cases "P l")
    case False
    with kept show ?thesis by simp
  next
    case True
    show ?thesis
    proof (cases "ls = []")
      case True
      with Cons.prems \<open>P l\<close> show ?thesis by simp
    next
      case False
      with Cons.prems have "terminated l" by (rule file_lines_head)
      with kept \<open>P l\<close> show ?thesis by (simp add: file_lines_Cons)
    qed
  qed
qed

lemma lines_of_concat: "file_lines ls \<Longrightarrow> lines_of (concat ls) = ls"
proof (induction ls rule: file_lines.induct)
  case 1
  then show ?case by simp
next
  case (2 l)
  then show ?case
    by (auto simp: terminated_def unterminated_def lines_of_single lines_of_open)
next
  case (3 l m ls)
  then obtain body where l: "l = body @ [LF]" "LF \<notin> set body"
    by (auto simp: terminated_def)
  from 3 have "lines_of (concat (m # ls)) = m # ls" by simp
  with l show ?case
    using lines_of_terminated [of body "concat (m # ls)"] by simp
qed

lemma set_del_loop_out:
  "set (concat (filter P (lines_of s))) \<subseteq> set s"
proof -
  have "concat (lines_of s) = s"
    by (induction s) (auto split: list.splits)
  then have "set s = \<Union> (set ` set (lines_of s))"
    by (metis set_concat)
  then show ?thesis by auto
qed

lemma readlines_del_text:
  "readlines (snd (del_text song artist stored))
     = filter (\<lambda>l. l \<noteq> pair_line song artist) (readlines stored)"
proof -
  let ?kept = "filter (\<lambda>l. l \<noteq> pair_line song artist) (lines_of (read_text stored))"
  have "CR \<notin> set (concat ?kept)"
    using set_del_loop_out [of "\<lambda>l. l \<noteq> pair_line song artist" "read_text stored"]
      read_text_no_CR [of stored] by blast
  then have "read_text (concat ?kept) = concat ?kept"
    by (rule read_text_id)
  moreover have "lines_of (concat ?kept) = ?kept"
    by (rule lines_of_concat) (rule file_lines_filter, rule file_lines_lines_of)
  ultimately show ?thesis
    by (simp add: del_text_filter readlines_def)
qed


lemma pair_line_plain:
  assumes "LF \<notin> set (song @ artist)" and "CR \<notin> set (song @ artist)"
  shows "LF \<notin> set (pair_text song artist)"
    and "read_text (pair_line song artist) = pair_line song artist"
    and "hd (pair_line song artist) \<noteq> LF"
proof -
  show "LF \<notin> set (pair_text song artist)"
    using assms(1) by (simp add: pair_text_def LF_def)
  have "CR \<notin> set (pair_line song artist)"
    using assms(2) by (simp add: pair_line_def pair_text_def CR_def LF_def)
  then show "read_text (pair_line song artist) = pair_line song artist"
    by (rule read_text_id)
  show "hd (pair_line song artist) \<noteq> LF"
    using assms(1) by (cases song) (auto simp: pair_line_def pair_text_def LF_def)
qed

lemma read_append_text:
  assumes "LF \<notin> set (song @ artist)" and "CR \<notin> set (song @ artist)"
  shows "read_text (append_text song artist stored) = read_text stored @ pair_line song artist"
  using pair_line_plain(2,3) [OF assms] read_text_append [of "pair_line song artist" stored]
  by (simp add: append_text_def)

lemma readlines_append_text:
  assumes "LF \<notin> set (song @ artist)" and "CR \<notin> set (song @ artist)"
    and "read_text stored = [] \<or> last (read_text stored) = LF"
  shows "readlines (append_text song artist stored) = readlines stored @ [pair_line song artist]"
proof -
  have "lines_of (read_text stored @ pair_line song artist)
          = lines_of (read_text stored) @ lines_of (pair_line song artist)"
    using assms(3) by (rule lines_of_append)
  moreover have "lines_of (pair_line song artist) = [pair_line song artist]"
    unfolding pair_line_def using pair_line_plain(1) [OF assms(1,2)] by (rule lines_of_single)
  ultimately show ?thesis
    by (simp add: readlines_def read_append_text [OF assms(1,2)])
qed

lemma readlines_appends:
  assumes "LF \<notin> set (song @ artist)" and "CR \<notin> set (song @ artist)"
  shows "read_text stored = [] \<or> last (read_text stored) = LF \<Longrightarrow>
         readlines (appends n song artist stored)
           = readlines stored @ replicate n (pair_line song artist)"
proof (induction n arbitrary: stored)
  case 0
  then show ?case by simp
next
  case (Suc n)
  have ended: "read_text (append_text song artist stored) = [] \<or>
               last (read_text (append_text song artist stored)) = LF"
    by (simp add: read_append_text [OF assms] pair_line_def)
  have "readlines (appends n song artist (append_text song artist stored))
          = readlines (append_text song artist stored) @ replicate n (pair_line song artist)"
    using ended by (rule Suc.IH)
  then show ?case
    by (simp add: readlines_append_text [OF assms Suc.prems] replicate_app_Cons_same)
qed

lemma contains_after_append:
  assumes "LF \<notin> set (song @ artist)" and "CR \<notin> set (song @ artist)"
  shows "contains (append_text song artist stored) song artist"
proof -
  have "sublist (pair_text song artist) (read_text stored @ pair_text song artist @ [LF])"
    by (rule sublist_appendI)
  then show ?thesis
    by (simp add: contains_def py_in_sublist read_append_text [OF assms] pair_line_def)
qed

text \<open>
  Claim C5, as the code has it. Let song and artist hold no line break (neither
  \<^verbatim>\<open>\n\<close> nor \<^verbatim>\<open>\r\<close>), and let the ledger, as read, be empty or end with a newline. After
  \<open>n\<close> consecutive appends of the pair, the removal returns \<open>n\<close> plus the number of lines
  equal to \<^verbatim>\<open>{song} by {artist}\n\<close> that the ledger held before, and the lines left are
  the other lines of the ledger, in order; no line of a dump taken after the removal
  equals the pair's line (the pair's text may still occur inside another line); and
  the membership test right after an append of the pair is true.
\<close>

theorem ledger_append_remove:
  assumes "LF \<notin> set (song @ artist)" and "CR \<notin> set (song @ artist)"
    and "read_text stored = [] \<or> last (read_text stored) = LF"
  shows "fst (del_text song artist (appends n song artist stored))
           = n + length (filter (\<lambda>l. l = pair_line song artist) (readlines stored)) \<and>
         readlines (snd (del_text song artist (appends n song artist stored)))
           = filter (\<lambda>l. l \<noteq> pair_line song artist) (readlines stored) \<and>
         pair_line song artist \<notin> set (lines_of (master_unsupported_text
           (snd (del_text song artist (appends n song artist stored))))) \<and>
         contains (append_text song artist stored) song artist"
proof -
  note lines = readlines_appends [OF assms(1,2) assms(3), of n]
  have count: "fst (del_text song artist (appends n song artist stored))
           = n + length (filter (\<lambda>l. l = pair_line song artist) (readlines stored))"
    by (simp add: del_text_filter lines)
  have rest: "readlines (snd (del_text song artist (appends n song artist stored)))
           = filter (\<lambda>l. l \<noteq> pair_line song artist) (readlines stored)"
    by (simp add: readlines_del_text lines)
  have dump: "pair_line song artist \<notin> set (lines_of (master_unsupported_text
           (snd (del_text song artist (appends n song artist stored)))))"
    using rest by (simp add: master_unsupported_text_def readlines_def)
  from count rest dump contains_after_append [OF assms(1,2)] show ?thesis by blast
qed

theorem ledger_append_remove_witness:
  "fst (del_text ''X'' ''Y'' (appends 3 ''X'' ''Y'' ''A by B\<newline>'')) = 3 \<and>
   readlines (snd (del_text ''X'' ''Y'' (appends 3 ''X'' ''Y'' ''A by B\<newline>''))) = [''A by B\<newline>''] \<and>
   contains (append_text ''X'' ''Y'' ''A by B\<newline>'') ''X'' ''Y''"
proof -
  have no_lf: "LF \<notin> set (''X'' @ ''Y'')" by (simp add: LF_def)
  have no_cr: "CR \<notin> set (''X'' @ ''Y'')" by (simp add: CR_def)
  have ended: "read_text ''A by B\<newline>'' = [] \<or> last (read_text ''A by B\<newline>'') = LF"
    by (simp add: LF_def CR_def)
  have before: "readlines ''A by B\<newline>'' = [''A by B\<newline>'']"
    by (simp add: readlines_def LF_def CR_def)
  have other: "pair_line ''X'' ''Y'' \<noteq> ''A by B\<newline>''"
    by (simp add: pair_line_def pair_text_def)
  from ledger_append_remove [OF no_lf no_cr ended, of 3] before other
  show ?thesis by auto
qed

text \<open>
  What claim C5 says of every pair fails when a name holds a line break. A song
  \<^verbatim>\<open>a\nb\<close> is appended as two lines of the file, none of which is the pair's line: the
  removal after one append returns 0 and leaves the file as it is. A song \<^verbatim>\<open>a\rb\<close> is
  read back as \<^verbatim>\<open>a\nb\<close>, so the membership test right after its append is false.
\<close>

theorem newline_in_song_not_removed:
  "fst (del_text ''a\<newline>b'' ''c'' (appends 1 ''a\<newline>b'' ''c'' [])) = 0 \<and>
   snd (del_text ''a\<newline>b'' ''c'' (appends 1 ''a\<newline>b'' ''c'' [])) = appends 1 ''a\<newline>b'' ''c'' [] \<and>
   \<not> contains (append_text (''a'' @ [CR] @ ''b'') ''c'' []) (''a'' @ [CR] @ ''b'') ''c''"
  by code_simp

section \<open>The membership test is a substring test\<close>

text \<open>
  Claim C10. The membership test of the ledger asks whether the text
  \<^verbatim>\<open>{song} by {artist}\<close> occurs anywhere in the content read, not whether a line equals
  it. With the line \<^verbatim>\<open>ab by cd\<close> stored, the pair (b, c), which is no line of the ledger,
  is reported as present; and after the removal of (b, c) has deleted its only line, the
  test for (b, c) is still true.
\<close>

theorem contains_is_substring_test:
  "(\<forall>stored song artist.
      contains stored song artist \<longleftrightarrow> sublist (song @ '' by '' @ artist) (read_text stored)) \<and>
   pair_line ''b'' ''c'' \<notin> set (readlines (append_text ''ab'' ''cd'' [])) \<and>
   contains (append_text ''ab'' ''cd'' []) ''b'' ''c'' \<and>
   del_text ''b'' ''c'' (append_text ''ab'' ''cd'' (append_text ''b'' ''c'' []))
     = (1, append_text ''ab'' ''cd'' []) \<and>
   contains (snd (del_text ''b'' ''c'' (append_text ''ab'' ''cd'' (append_text ''b'' ''c'' []))))
     ''b'' ''c''"
proof -
  have general: "\<forall>stored song artist.
      contains stored song artist \<longleftrightarrow> sublist (song @ '' by '' @ artist) (read_text stored)"
    by (simp add: contains_def pair_text_def py_in_sublist)
  have never_appended: "pair_line ''b'' ''c'' \<notin> set (readlines (append_text ''ab'' ''cd'' []))"
    by code_simp
  have inside: "contains (append_text ''ab'' ''cd'' []) ''b'' ''c''"
    by code_simp
  have removed: "del_text ''b'' ''c'' (append_text ''ab'' ''cd'' (append_text ''b'' ''c'' []))
     = (1, append_text ''ab'' ''cd'' [])"
    by code_simp
  from general never_appended inside removed show ?thesis by simp
qed

section \<open>What the provider calls leave unchanged\<close>

lemma get_spotify_token_frame:
  "unsupported_txt (snd (get_spotify_token e w)) = unsupported_txt w \<and>
   issue_posts title (snd (get_spotify_token e w)) = issue_posts title w"
  by (auto simp: get_spotify_token_def Let_def tick_def send_def issue_posts_def is_issue_post_def
      split: option.splits sum.splits)

lemma get_github_token_frame:
  "unsupported_txt (snd (get_github_token e w)) = unsupported_txt w \<and>
   issue_posts title (snd (get_github_token e w)) = issue_posts title w"
  by (auto simp: get_github_token_def Let_def tick_def send_def issue_posts_def is_issue_post_def
      split: option.splits sum.splits)

lemma check_song_frame:
  "unsupported_txt (snd (check_song e w song artist)) = unsupported_txt w \<and>
   issue_posts title (snd (check_song e w song artist)) = issue_posts title w"
proof (cases "get_spotify_token e w")
  case (Pair res w1)
  with get_spotify_token_frame [of e w title]
  have frame: "unsupported_txt w1 = unsupported_txt w" "issue_posts title w1 = issue_posts title w"
    by simp_all
  show ?thesis
  proof (cases res)
    case (Inl err)
    with Pair frame show ?thesis by (simp add: check_song_def)
  next
    case (Inr tok)
    with Pair frame show ?thesis
      by (auto simp: check_song_def Let_def send_def issue_posts_def is_issue_post_def
          split: option.splits sum.splits pyerr.splits)
  qed
qed

lemma create_issue_ledger:
  "unsupported_txt (snd (create_issue e w song artist version stripped)) = unsupported_txt w"
proof (cases "get_github_token e w")
  case (Pair res w1)
  with get_github_token_frame [of e w "[]"] have "unsupported_txt w1 = unsupported_txt w"
    by simp
  with Pair show ?thesis
    by (auto simp: create_issue_def Let_def send_def split: option.splits sum.splits)
qed

lemma create_issue_other_title:
  assumes "issue_title song artist \<noteq> title"
  shows "issue_posts title (snd (create_issue e w song artist version stripped))
           = issue_posts title w"
proof (cases "get_github_token e w")
  case (Pair res w1)
  with get_github_token_frame [of e w title] have "issue_posts title w1 = issue_posts title w"
    by simp
  with Pair assms show ?thesis
    by (auto simp: create_issue_def Let_def send_def issue_posts_def is_issue_post_def
        split: option.splits sum.splits)
qed

lemma create_issue_sent:
  assumes "get_github_token e w = (Inr tok, w1)"
  shows "sent (snd (create_issue e w song artist version stripped))
           = IssuePost tok (issue_title song artist) (issue_body version stripped) # sent w1"
  using assms
  by (auto simp: create_issue_def Let_def send_def split: option.splits sum.splits)


lemma update_new_pair_unfold:
  assumes "\<not> version < ''1.1.1''"
    and "\<not> contains (unsupported_txt w) song artist"
    and "\<not> (asrg_fullmatch song \<and> asrg_fullmatch artist)"
    and "check_song e w song artist = (Inr True, w1)"
  shows "snd (update e w song artist (Some version))
           = snd (create_issue e (w1\<lparr>unsupported_txt := append_text song artist (unsupported_txt w1)\<rparr>)
                    song artist version (stripper e song artist))"
  using assms by (auto simp: update_def Let_def split: prod.splits sum.splits)

lemma issue_title_inj:
  "issue_title song artist = issue_title song' artist' \<longleftrightarrow>
   pair_text song artist = pair_text song' artist'"
proof -
  have "issue_title s a = pair_text s a @ '' unsupported.''" for s a
    by (simp add: issue_title_def pair_text_def)
  then show ?thesis by simp
qed

lemma contains_append_text:
  assumes "contains stored song artist"
  shows "contains (append_text song' artist' stored) song artist"
proof -
  from assms have "sublist (pair_text song artist) (read_text stored)"
    by (simp add: contains_def py_in_sublist)
  moreover have "prefix (read_text stored) (read_text (stored @ pair_line song' artist'))"
    by (rule read_text_prefix)
  ultimately have "sublist (pair_text song artist) (read_text (stored @ pair_line song' artist'))"
    by (meson prefix_imp_sublist sublist_order.order_trans)
  then show ?thesis
    by (simp add: contains_def py_in_sublist append_text_def)
qed

lemma update_keeps_tracked:
  assumes "contains (unsupported_txt w) song artist"
  shows "contains (unsupported_txt (snd (update e w song' artist' form_version))) song artist \<and>
         issue_posts (issue_title song artist) (snd (update e w song' artist' form_version))
           = issue_posts (issue_title song artist) w"
proof (cases "\<exists>version. form_version = Some version \<and> \<not> version < ''1.1.1'' \<and>
    \<not> contains (unsupported_txt w) song' artist' \<and>
    \<not> (asrg_fullmatch song' \<and> asrg_fullmatch artist')")
  case False
  then have "snd (update e w song' artist' form_version) = w"
    by (cases form_version) (auto simp: update_def)
  with assms show ?thesis by simp
next
  case True
  then obtain version where v: "form_version = Some version" "\<not> version < ''1.1.1''"
    "\<not> contains (unsupported_txt w) song' artist'"
    "\<not> (asrg_fullmatch song' \<and> asrg_fullmatch artist')"
    by blast
  from assms v(3) have "pair_text song' artist' \<noteq> pair_text song artist"
    by (auto simp: contains_def)
  then have other: "issue_title song' artist' \<noteq> issue_title song artist"
    by (simp add: issue_title_inj)
  obtain res w1 where cs: "check_song e w song' artist' = (res, w1)"
    by (cases "check_song e w song' artist'")
  with check_song_frame [of e w song' artist' "issue_title song artist"]
  have w1: "unsupported_txt w1 = unsupported_txt w"
    "issue_posts (issue_title song artist) w1 = issue_posts (issue_title song artist) w"
    by simp_all
  show ?thesis
  proof (cases "res = Inr True")
    case False
    with cs v have "snd (update e w song' artist' form_version) = w1"
      by (cases res) (auto simp: update_def)
    with w1 assms show ?thesis by simp
  next
    case True
    let ?w2 = "w1\<lparr>unsupported_txt := append_text song' artist' (unsupported_txt w1)\<rparr>"
    from True cs v have unfold: "snd (update e w song' artist' form_version)
        = snd (create_issue e ?w2 song' artist' version (stripper e song' artist'))"
      using update_new_pair_unfold [of version w song' artist' e w1] by simp
    have "contains (unsupported_txt ?w2) song artist"
      using assms w1 by (simp add: contains_append_text)
    moreover have "issue_posts (issue_title song artist) ?w2
        = issue_posts (issue_title song artist) w"
      using w1 by (simp add: issue_posts_def)
    ultimately show ?thesis
      by (simp add: unfold create_issue_ledger create_issue_other_title [OF other])
  qed
qed

lemma updates_keep_tracked:
  "contains (unsupported_txt w) song artist \<Longrightarrow>
   contains (unsupported_txt (updates w requests)) song artist \<and>
   issue_posts (issue_title song artist) (updates w requests)
     = issue_posts (issue_title song artist) w"
proof (induction requests arbitrary: w)
  case Nil
  then show ?case by simp
next
  case (Cons rq requests)
  obtain e song' artist' form_version where rq: "rq = (e, song', artist', form_version)"
    by (cases rq)
  note step = update_keeps_tracked [OF Cons.prems, of e song' artist' form_version]
  from Cons.IH [OF step [THEN conjunct1]] step rq show ?case by simp
qed

section \<open>The route \<^verbatim>\<open>/unsupported\<close>: version floor\<close>

text \<open>
  Claim C7. For every song and artist, a request whose client version is below the floor
  \<^verbatim>\<open>'1.1.1'\<close> (the order is Python's order on strings, as in \<^verbatim>\<open>version < '1.1.1'\<close>)
  gets the update prompt, and nothing else happens: the ledger, the tokens and the list
  of requests sent are what they were, so no line is appended and no issue is filed.
\<close>

theorem update_below_floor:
  assumes "version < ''1.1.1''"
  shows "update e w song artist (Some version) = (Inr update_text, w)"
  using assms by (simp add: update_def)

theorem update_below_floor_witness:
  "''1.0.0'' < ''1.1.1'' \<and>
   update (test_env ''abc'' ''def'' created_answer) (world0 []) ''abc'' ''def'' (Some ''1.0.0'')
     = (Inr update_text, world0 [])"
proof -
  have below: "''1.0.0'' < ''1.1.1''" by simp
  show ?thesis using below update_below_floor [OF below] by simp
qed

section \<open>The route \<^verbatim>\<open>/unsupported\<close>: a pair already in the ledger\<close>

text \<open>
  Claim C8, as the code has it. When the membership test is true for a pair, a request
  for it changes nothing, whatever its version field: no line is appended and no request
  is sent. When the version is not below the floor, so that the test is reached, the
  answer is \<^verbatim>\<open>Issue already exists on the GitHub repo.\<close> And as long as requests to the
  route are all that happens, the test stays true and no request, for any pair, files an
  issue with this pair's title: the issue calls with that title are those made before.
\<close>

theorem update_already_tracked:
  assumes "contains (unsupported_txt w) song artist"
  shows "snd (update e w song artist form_version) = w \<and>
         (\<not> version < ''1.1.1'' \<longrightarrow>
            update e w song artist (Some version) = (Inr exists_text, w)) \<and>
         contains (unsupported_txt (updates w requests)) song artist \<and>
         issue_posts (issue_title song artist) (updates w requests)
           = issue_posts (issue_title song artist) w"
proof -
  have same: "snd (update e w song artist form_version) = w"
    using assms by (cases form_version) (auto simp: update_def)
  have outcome: "\<not> version < ''1.1.1'' \<longrightarrow>
      update e w song artist (Some version) = (Inr exists_text, w)"
    using assms by (simp add: update_def)
  from same outcome updates_keep_tracked [OF assms, of requests] show ?thesis by blast
qed

theorem update_already_tracked_witness:
  "contains (unsupported_txt (world0 ''Test Song 2 by Test Artist\<newline>'')) ''Test Song 2'' ''Test Artist'' \<and>
   update (test_env ''Test Song 2'' ''Test Artist'' created_answer)
     (world0 ''Test Song 2 by Test Artist\<newline>'') ''Test Song 2'' ''Test Artist'' (Some ''1.1.1'')
     = (Inr exists_text, world0 ''Test Song 2 by Test Artist\<newline>'') \<and>
   issue_posts (issue_title ''Test Song 2'' ''Test Artist'')
     (updates (world0 ''Test Song 2 by Test Artist\<newline>'')
        [(test_env ''Test Song 2'' ''Test Artist'' created_answer,
          ''Test Song 2'', ''Test Artist'', Some ''1.1.1''),
         (test_env ''Song 3'' ''Test Artist'' created_answer,
          ''Song 3'', ''Test Artist'', Some ''1.1.1'')]) = []"
proof -
  let ?w = "world0 ''Test Song 2 by Test Artist\<newline>''"
  let ?e = "test_env ''Test Song 2'' ''Test Artist'' created_answer"
  let ?requests = "[(?e, ''Test Song 2'', ''Test Artist'', Some ''1.1.1''),
         (test_env ''Song 3'' ''Test Artist'' created_answer,
          ''Song 3'', ''Test Artist'', Some ''1.1.1'')]"
  have tracked: "contains (unsupported_txt ?w) ''Test Song 2'' ''Test Artist''"
    by code_simp
  have floor: "\<not> ''1.1.1'' < ''1.1.1''" by simp
  have none: "issue_posts (issue_title ''Test Song 2'' ''Test Artist'') ?w = []"
    by (simp add: issue_posts_def world0_def)
  note known = update_already_tracked [OF tracked, of ?e "Some ''1.1.1''" "''1.1.1''" ?requests]
  from known floor have answer: "update ?e ?w ''Test Song 2'' ''Test Artist'' (Some ''1.1.1'')
     = (Inr exists_text, ?w)"
    by blast
  from known have "issue_posts (issue_title ''Test Song 2'' ''Test Artist'') (updates ?w ?requests)
     = issue_posts (issue_title ''Test Song 2'' ''Test Artist'') ?w"
    by blast
  with none have posts: "issue_posts (issue_title ''Test Song 2'' ''Test Artist'')
      (updates ?w ?requests) = []"
    by (simp only:)
  from tracked answer posts show ?thesis by blast
qed

text \<open>
  What claim C8 says of every pair in the ledger fails for a request whose version is
  below the floor: the version is checked first, and the answer is the update prompt.
\<close>

theorem tracked_pair_old_version:
  "contains (unsupported_txt (world0 ''Test Song 2 by Test Artist\<newline>''))
     ''Test Song 2'' ''Test Artist'' \<and>
   fst (update (test_env ''Test Song 2'' ''Test Artist'' created_answer)
          (world0 ''Test Song 2 by Test Artist\<newline>'')
          ''Test Song 2'' ''Test Artist'' (Some ''1.0.0'')) = Inr update_text \<and>
   update_text \<noteq> exists_text"
  by code_simp

section \<open>The route \<^verbatim>\<open>/unsupported\<close>: a new pair\<close>

text \<open>
  Claim C2, as the code has it. Take a request whose version is not below the floor, for a
  pair whose text is not in the ledger, that the track provider confirms, and whose song
  and artist are not both made of ASCII letters and whitespace only (\<^verbatim>\<open>Test Song 2\<close> by
  \<^verbatim>\<open>Test Artist\<close>, say). The ledger gains exactly the line \<^verbatim>\<open>{song} by {artist}\<close>, and once
  the installation token is at hand the issue-creation request is sent. For
  \<^verbatim>\<open>Test Song\<close> by \<^verbatim>\<open>Test Artist\<close> with version \<^verbatim>\<open>1.1.1\<close> themselves, not in the ledger,
  the answer is \<^verbatim>\<open>Lyrics for Test Song by Test Artist may not exist on Genius.\<close> and
  nothing changes, whatever the providers would say.
\<close>

theorem update_files_new_pair:
  assumes "\<not> version < ''1.1.1''"
    and "\<not> contains (unsupported_txt w) song artist"
    and "\<not> (asrg_fullmatch song \<and> asrg_fullmatch artist)"
    and "check_song e w song artist = (Inr True, w1)"
  shows "unsupported_txt (snd (update e w song artist (Some version)))
           = unsupported_txt w @ pair_line song artist \<and>
         (get_github_token e (w1\<lparr>unsupported_txt := append_text song artist (unsupported_txt w1)\<rparr>)
            = (Inr tok, w2) \<longrightarrow>
          sent (snd (update e w song artist (Some version)))
            = IssuePost tok (issue_title song artist)
                (issue_body version (stripper e song artist)) # sent w2) \<and>
         (\<not> contains (unsupported_txt w') ''Test Song'' ''Test Artist'' \<longrightarrow>
          update e' w' ''Test Song'' ''Test Artist'' (Some ''1.1.1'')
            = (Inr (may_not_exist_text ''Test Song'' ''Test Artist''), w'))"
proof -
  let ?w2 = "w1\<lparr>unsupported_txt := append_text song artist (unsupported_txt w1)\<rparr>"
  note unfold = update_new_pair_unfold [OF assms]
  have "unsupported_txt w1 = unsupported_txt w"
    using check_song_frame [of e w song artist "[]"] assms(4) by simp
  then have ledger: "unsupported_txt (snd (update e w song artist (Some version)))
           = unsupported_txt w @ pair_line song artist"
    by (simp add: unfold create_issue_ledger append_text_def)
  have post: "get_github_token e ?w2 = (Inr tok, w2) \<longrightarrow>
          sent (snd (update e w song artist (Some version)))
            = IssuePost tok (issue_title song artist)
                (issue_body version (stripper e song artist)) # sent w2"
    by (simp add: unfold create_issue_sent)
  have floor: "\<not> ''1.1.1'' < ''1.1.1''" by simp
  have letters: "asrg_fullmatch ''Test Song'' \<and> asrg_fullmatch ''Test Artist''"
    by code_simp
  have plain: "\<not> contains (unsupported_txt w') ''Test Song'' ''Test Artist'' \<longrightarrow>
          update e' w' ''Test Song'' ''Test Artist'' (Some ''1.1.1'')
            = (Inr (may_not_exist_text ''Test Song'' ''Test Artist''), w')"
    using letters by (simp add: update_def)
  from ledger post plain show ?thesis by blast
qed

theorem update_files_new_pair_witness:
  "unsupported_txt (snd (update (test_env ''Test Song 2'' ''Test Artist'' created_answer)
      (world0 []) ''Test Song 2'' ''Test Artist'' (Some ''1.1.1'')))
     = ''Test Song 2 by Test Artist\<newline>'' \<and>
   hd (sent (snd (update (test_env ''Test Song 2'' ''Test Artist'' created_answer)
      (world0 []) ''Test Song 2'' ''Test Artist'' (Some ''1.1.1''))))
     = IssuePost (JStr ''ghs_token'') ''Test Song 2 by Test Artist unsupported.''
         (issue_body ''1.1.1'' ''Test Artist-Test Song 2'')"
proof -
  let ?e = "test_env ''Test Song 2'' ''Test Artist'' created_answer"
  let ?w1 = "snd (check_song ?e (world0 []) ''Test Song 2'' ''Test Artist'')"
  let ?w2 = "?w1\<lparr>unsupported_txt := append_text ''Test Song 2'' ''Test Artist'' (unsupported_txt ?w1)\<rparr>"
  have floor: "\<not> ''1.1.1'' < ''1.1.1''" by simp
  have new: "\<not> contains (unsupported_txt (world0 [])) ''Test Song 2'' ''Test Artist''"
    by code_simp
  have digit: "\<not> (asrg_fullmatch ''Test Song 2'' \<and> asrg_fullmatch ''Test Artist'')"
    by code_simp
  have "fst (check_song ?e (world0 []) ''Test Song 2'' ''Test Artist'') = Inr True"
    by code_simp
  then have legit: "check_song ?e (world0 []) ''Test Song 2'' ''Test Artist'' = (Inr True, ?w1)"
    by (simp add: prod_eq_iff)
  have "fst (get_github_token ?e ?w2) = Inr (JStr ''ghs_token'')"
    by code_simp
  then have token: "get_github_token ?e ?w2
      = (Inr (JStr ''ghs_token''), snd (get_github_token ?e ?w2))"
    by (simp add: prod_eq_iff)
  have strip: "stripper ?e ''Test Song 2'' ''Test Artist'' = ''Test Artist-Test Song 2''"
    by (simp add: test_env_def)
  have title: "issue_title ''Test Song 2'' ''Test Artist'' = ''Test Song 2 by Test Artist unsupported.''"
    by (simp add: issue_title_def)
  have line: "unsupported_txt (world0 []) @ pair_line ''Test Song 2'' ''Test Artist''
      = ''Test Song 2 by Test Artist\<newline>''"
    by (simp add: world0_def pair_line_def pair_text_def LF_def)
  from update_files_new_pair [OF floor new digit legit, of "JStr ''ghs_token''"
      "snd (get_github_token ?e ?w2)"] token strip title line
  show ?thesis by simp
qed

text \<open>
  The input of claim C2 itself: the track provider confirms the exact match and the
  ledger is empty, yet no line is appended and no request is sent.
\<close>

theorem test_song_not_appended:
  "\<not> contains (unsupported_txt (world0 [])) ''Test Song'' ''Test Artist'' \<and>
   fst (check_song (test_env ''Test Song'' ''Test Artist'' created_answer) (world0 [])
          ''Test Song'' ''Test Artist'') = Inr True \<and>
   update (test_env ''Test Song'' ''Test Artist'' created_answer) (world0 [])
     ''Test Song'' ''Test Artist'' (Some ''1.1.1'')
     = (Inr (may_not_exist_text ''Test Song'' ''Test Artist''), world0 [])"
  by code_simp

section \<open>A refused issue creation\<close>

lemma create_issue_without_link:
  assumes "get_github_token e w = (Inr tok, w1)"
    and "json_body (http e (IssuePost tok (issue_title song artist) (issue_body version stripped)))
           = Some (JObj items)"
    and "map_of items ''html_url'' = None"
  shows "fst (create_issue e w song artist version stripped) = Inl KeyError"
  using assms by (simp add: create_issue_def Let_def andthen_def)

lemma update_raises_with_create_issue:
  assumes "\<not> version < ''1.1.1''"
    and "\<not> contains (unsupported_txt w) song artist"
    and "\<not> (asrg_fullmatch song \<and> asrg_fullmatch artist)"
    and "check_song e w song artist = (Inr True, w1)"
    and "fst (create_issue e (w1\<lparr>unsupported_txt := append_text song artist (unsupported_txt w1)\<rparr>)
                song artist version (stripper e song artist)) = Inl err"
  shows "fst (update e w song artist (Some version)) = Inl err"
  using assms by (auto simp: update_def Let_def split: prod.splits sum.splits)

text \<open>
  Claim C1. After a legitimate pair has been appended, an issue creation that fails
  should give the outcome \<^verbatim>\<open>Logged ... in the server.\<close>, leave the appended line in
  place and raise nothing. The code keeps the line, but \<^verbatim>\<open>create_issue\<close> reads
  \<^verbatim>\<open>r.json()['html_url']\<close> whatever the status is: when the provider refuses with status
  401 and an error object, which has no such key, the request ends with \<^verbatim>\<open>KeyError\<close>
  instead of the outcome.
\<close>

theorem create_issue_refused_raises:
  "fst (update (test_env ''Test Song 2'' ''Test Artist'' refused_answer) (world0 [])
          ''Test Song 2'' ''Test Artist'' (Some ''1.1.1'')) = Inl KeyError \<and>
   unsupported_txt (snd (update (test_env ''Test Song 2'' ''Test Artist'' refused_answer)
          (world0 []) ''Test Song 2'' ''Test Artist'' (Some ''1.1.1'')))
     = ''Test Song 2 by Test Artist\<newline>'' \<and>
   status_code refused_answer \<noteq> 201"
  by code_simp

section \<open>A closed issue whose title is not of the expected form\<close>

lemma wdt_match_example: "wdt_match ''X by Y unsupported.'' = Some (''X'', ''Y'')"
  by code_simp

lemma webhook_title_without_match:
  assumes "wdt_match title = None"
  shows "github_webhook w (Some ''issues'') (closed_issue title) = (Inl AttributeError, w)"
  using assms by (simp add: github_webhook_def closed_issue_def andthen_def)

lemma webhook_title_with_match:
  assumes "wdt_match title = Some (song, artist)"
  shows "github_webhook w (Some ''issues'') (closed_issue title)
           = (Inr (deleted_text (fst (del_line song artist w))), snd (del_line song artist w))"
  using assms
  by (simp add: github_webhook_def closed_issue_def andthen_def split: prod.splits)

text \<open>
  Claim C3. An \<^verbatim>\<open>issues\<close> event for a closed unsupported-song issue of the expected
  repository whose title does not match \<^verbatim>\<open>{song} by {artist} unsupported.\<close> should change
  nothing and be answered as not relevant. The code changes nothing, but it calls
  \<^verbatim>\<open>title.group(1)\<close> on the \<^verbatim>\<open>None\<close> that \<^verbatim>\<open>wdt.match\<close> returned: the request ends
  with \<^verbatim>\<open>AttributeError\<close>.
\<close>

theorem webhook_unparsed_title_raises:
  "wdt_match ''Lyrics missing for X'' = None \<and>
   github_webhook (world0 ''X by Y\<newline>'') (Some ''issues'') (closed_issue ''Lyrics missing for X'')
     = (Inl AttributeError, world0 ''X by Y\<newline>'')"
  by code_simp

end
